theory Spec2Isabelle
  imports Main "HOL-Library.Sublist"
begin

section \<open>Python values, exceptions and dictionaries\<close>

text \<open>
  The client (\<^verbatim>\<open>client.py\<close>) handles JSON-like Python values: what a payload holds, what
  \<^verbatim>\<open>response.json()\<close> returns and what the session state stores. Numbers with a fraction
  (Python floats) are left out. A dictionary keeps its insertion order, so it is an
  association list; looking a key up is \<^term>\<open>map_of\<close>.
\<close>

datatype pyval =
    PNone
  | PBool bool
  | PInt int
  | PStr string
  | PList "pyval list"
  | PDict "(string \<times> pyval) list"

type_synonym dict = "(string \<times> pyval) list"

text \<open>The exceptions that can leave the modelled code.\<close>

datatype error = UnboundLocalError | NameError | KeyError | TypeError

text \<open>\<^verbatim>\<open>k in d\<close>\<close>

definition dict_has :: "dict \<Rightarrow> string \<Rightarrow> bool" where
  "dict_has d k = (case map_of d k of None \<Rightarrow> False | Some v \<Rightarrow> True)"

text \<open>
  \<^verbatim>\<open>d[k] = v\<close>: an existing key keeps its position and takes the new value, a new key
  goes to the end.
\<close>

fun dict_set :: "dict \<Rightarrow> string \<Rightarrow> pyval \<Rightarrow> dict" where
  "dict_set [] k v = [(k, v)]"
| "dict_set ((k', v') # d) k v =
     (if k' = k then (k, v) # d else (k', v') # dict_set d k v)"

text \<open>
  \<^verbatim>\<open>str(n)\<close> of an integer, as an f-string renders a status code or a similarity.
\<close>

definition digit_char :: "nat \<Rightarrow> char" where
  "digit_char n = ''0123456789'' ! n"

fun str_nat :: "nat \<Rightarrow> string" where
  "str_nat n = (if n < 10 then [digit_char n] else str_nat (n div 10) @ [digit_char (n mod 10)])"

definition str_int :: "int \<Rightarrow> string" where
  "str_int i = (if i < 0 then ''-'' @ str_nat (nat (- i)) else str_nat (nat i))"

text \<open>
  \<^verbatim>\<open>repr\<close> of a string, which is how a string shows inside the \<^verbatim>\<open>str\<close> of a list or a
  dictionary. A character stands for the code point of its number, 0 to 255. The quotes are
  double when the string has a single quote and no double quote, and single otherwise; the
  quote character and the backslash are escaped, tab, newline and carriage return are written
  with their letters, and every other code point that is not printable (below 32, 127 to
  160, and 173) is written as \<^verbatim>\<open>\x\<close> and two hexadecimal digits.
\<close>

definition hex_digit :: "nat \<Rightarrow> char" where
  "hex_digit n = ''0123456789abcdef'' ! n"

definition printable :: "char \<Rightarrow> bool" where
  "printable c = (let n = (of_char c :: nat) in (32 \<le> n \<and> n < 127) \<or> (161 \<le> n \<and> n \<noteq> 173))"

definition escape_char :: "char \<Rightarrow> char \<Rightarrow> string" where
  "escape_char quote c =
     (if c = quote \<or> c = CHR 0x5C then [CHR 0x5C, c]
      else if c = CHR 0x09 then [CHR 0x5C, CHR ''t'']
      else if c = CHR 0x0A then [CHR 0x5C, CHR ''n'']
      else if c = CHR 0x0D then [CHR 0x5C, CHR ''r'']
      else if printable c then [c]
      else [CHR 0x5C, CHR ''x'', hex_digit (of_char c div 16), hex_digit (of_char c mod 16)])"

definition repr_str :: "string \<Rightarrow> string" where
  "repr_str s =
     (let quote = (if CHR 0x27 \<in> set s \<and> CHR 0x22 \<notin> set s then CHR 0x22 else CHR 0x27)
      in quote # concat (map (escape_char quote) s) @ [quote])"

text \<open>\<^verbatim>\<open>sep.join(xs)\<close>\<close>

fun join :: "string \<Rightarrow> string list \<Rightarrow> string" where
  "join sep [] = []"
| "join sep [x] = x"
| "join sep (x # y # ys) = x @ sep @ join sep (y # ys)"

text \<open>\<^verbatim>\<open>repr(v)\<close>, which is also \<^verbatim>\<open>str(v)\<close> and the f-string form of every value but a string.\<close>

fun py_repr :: "pyval \<Rightarrow> string" where
  "py_repr PNone = ''None''"
| "py_repr (PBool b) = (if b then ''True'' else ''False'')"
| "py_repr (PInt i) = str_int i"
| "py_repr (PStr s) = repr_str s"
| "py_repr (PList xs) = ''['' @ join '', '' (map py_repr xs) @ '']''"
| "py_repr (PDict d) =
     ''{'' @ join '', '' (map (\<lambda>kv. repr_str (fst kv) @ '': '' @ py_repr (snd kv)) d) @ ''}''"

section \<open>The world the client runs in\<close>

text \<open>
  Lines 12 to 18: the three credentials are read once from the process environment
  (\<^verbatim>\<open>os.environ.get(..., '')\<close>, so each is a string, possibly empty), and the session key
  \<^verbatim>\<open>api_server_url\<close> is written by line 18 only; the record holds these four strings.
\<close>

record config =
  api_server_url :: string
  openai_api_key :: string
  google_api_key :: string
  search_engine_id :: string

text \<open>The arguments of one \<^verbatim>\<open>requests.post\<close> call (lines 50 to 55).\<close>

record request =
  req_url :: string
  req_json :: dict
  req_headers :: "(string \<times> string) list"
  req_timeout :: nat

text \<open>
  What the call gives back: a response, with its status, its text and what
  \<^verbatim>\<open>response.json()\<close> returns (\<^term>\<open>None\<close> when the text is not JSON, where the method
  raises \<^verbatim>\<open>json.JSONDecodeError\<close>), or an exception with its message \<^verbatim>\<open>str(e)\<close>.
\<close>

record response =
  resp_status_code :: int
  resp_text :: string
  resp_json :: "pyval option"

datatype http_outcome = Responded response | Raised string

text \<open>
  \<^verbatim>\<open>logger.info\<close> and \<^verbatim>\<open>logger.error\<close> records. The info line of line 47 is kept as its two
  interpolated parts, the tool name and the dictionary given to \<^verbatim>\<open>json.dumps\<close>.
\<close>

datatype log_record = Log_info string dict | Log_error string

text \<open>The Streamlit calls that show a message.\<close>

datatype st_call = St_error string | St_warning string | St_info string | St_success string | St_balloons

text \<open>
  Dictionaries passed between functions are objects: the heap holds them, and an address is
  an index into it. The rest of the state is what has been logged, shown and posted so far,
  and Streamlit's \<^verbatim>\<open>st.session_state\<close>.
\<close>

type_synonym addr = nat

record world =
  heap :: "dict list"
  logged :: "log_record list"
  shown :: "st_call list"
  posted :: "request list"
  session_state :: dict

text \<open>\<^verbatim>\<open>d.copy()\<close>: a new dictionary object with the same items.\<close>

definition dict_copy :: "addr \<Rightarrow> world \<Rightarrow> addr \<times> world" where
  "dict_copy a w = (length (heap w), w\<lparr>heap := heap w @ [heap w ! a]\<rparr>)"

text \<open>A dictionary display \<^verbatim>\<open>{...}\<close>: a new object.\<close>

definition new_dict :: "dict \<Rightarrow> world \<Rightarrow> addr \<times> world" where
  "new_dict d w = (length (heap w), w\<lparr>heap := heap w @ [d]\<rparr>)"

text \<open>\<^verbatim>\<open>obj[k] = v\<close> on the dictionary object at an address.\<close>

definition setitem :: "addr \<Rightarrow> string \<Rightarrow> pyval \<Rightarrow> world \<Rightarrow> world" where
  "setitem a k v w = w\<lparr>heap := (heap w)[a := dict_set (heap w ! a) k v]\<rparr>"

definition log_call :: "log_record \<Rightarrow> world \<Rightarrow> world" where
  "log_call r w = w\<lparr>logged := logged w @ [r]\<rparr>"

definition st :: "st_call \<Rightarrow> world \<Rightarrow> world" where
  "st c w = w\<lparr>shown := shown w @ [c]\<rparr>"

section \<open>\<^verbatim>\<open>call_api_tool\<close> (lines 26 to 72)\<close>

text \<open>
  The expression \<^verbatim>\<open>f"{key[:5]}...{key[-5:]}"\<close> of lines 41 and 45. A slice never raises:
  \<^verbatim>\<open>key[-5:]\<close> is the whole string when it has fewer than five characters.
\<close>

definition redact :: "string \<Rightarrow> string" where
  "redact key = take 5 key @ ''...'' @ drop (length key - 5) key"

text \<open>
  The same expression for whatever value \<^verbatim>\<open>key\<close> is bound to. A string is sliced as above.
  A list is sliced too, and each slice is rendered by \<^verbatim>\<open>str\<close>. \<^verbatim>\<open>None\<close>, a Boolean and
  an integer are not subscriptable, and a dictionary cannot be subscripted by a slice, which
  is not hashable (Python 3.11): these raise \<^verbatim>\<open>TypeError\<close>.
\<close>

fun redaction :: "pyval \<Rightarrow> error + string" where
  "redaction (PStr k) = Inr (redact k)"
| "redaction (PList xs) =
     Inr (py_repr (PList (take 5 xs)) @ ''...'' @ py_repr (PList (drop (length xs - 5) xs)))"
| "redaction v = Inl TypeError"

text \<open>
  Lines 40 to 42. \<^verbatim>\<open>key\<close> is a local variable of the function (lines 42 and 44 assign it),
  given here as its binding on entry, \<^term>\<open>None\<close> while it is unbound. Line 41 reads it
  before line 42 assigns it. The result is the binding after the block.
\<close>

definition redact_openai :: "pyval option \<Rightarrow> addr \<Rightarrow> world \<Rightarrow> (error + pyval option) \<times> world" where
  "redact_openai key log_data w =
     (if dict_has (heap w ! log_data) ''openai_api_key'' then
        (case key of
           None \<Rightarrow> (Inl UnboundLocalError, w)
         | Some v \<Rightarrow>
             (case redaction v of
                Inl e \<Rightarrow> (Inl e, w)
              | Inr s \<Rightarrow>
                  (let w' = setitem log_data ''openai_api_key'' (PStr s) w
                   in (Inr (map_of (heap w' ! log_data) ''openai_api_key''), w'))))
      else (Inr key, w))"

text \<open>Lines 43 to 45: here the variable is assigned first and sliced second.\<close>

definition redact_google :: "pyval option \<Rightarrow> addr \<Rightarrow> world \<Rightarrow> (error + pyval option) \<times> world" where
  "redact_google key log_data w =
     (if dict_has (heap w ! log_data) ''google_api_key'' then
        (case map_of (heap w ! log_data) ''google_api_key'' of
           None \<Rightarrow> (Inl KeyError, w)
         | Some v \<Rightarrow>
             (case redaction v of
                Inl e \<Rightarrow> (Inl e, w)
              | Inr s \<Rightarrow> (Inr (Some v), setitem log_data ''google_api_key'' (PStr s) w)))
      else (Inr key, w))"

text \<open>
  The arguments of the post (lines 50 to 55): the URL, the dictionary given as \<^verbatim>\<open>json=\<close>,
  the \<^verbatim>\<open>headers=\<close> dictionary as line 53 writes it, and the timeout in seconds.
\<close>

definition post_request :: "string \<Rightarrow> dict \<Rightarrow> request" where
  "post_request url body =
     \<lparr>req_url = url, req_json = body,
      req_headers = [(''Context-Type'', ''application/json'')], req_timeout = 60\<rparr>"

text \<open>
  Lines 49 to 72, the \<^verbatim>\<open>try\<close> statement. \<^verbatim>\<open>except Exception\<close> catches whatever the post
  raises, so the block always returns a value; \<^term>\<open>PNone\<close> is Python's \<^verbatim>\<open>None\<close>.
\<close>

definition try_block :: "(request \<Rightarrow> http_outcome) \<Rightarrow> string \<Rightarrow> addr \<Rightarrow> world \<Rightarrow> pyval \<times> world" where
  "try_block server url request_data w =
     (let req = post_request url (heap w ! request_data);
          w1 = w\<lparr>posted := posted w @ [req]\<rparr>
      in case server req of
           Raised e \<Rightarrow>
             (let error_message = ''Error conecting to server: '' @ e
              in (PNone, st (St_error error_message) (log_call (Log_error error_message) w1)))
         | Responded response \<Rightarrow>
             if resp_status_code response \<noteq> 200 then
               (let error_message =
                  ''Error '' @ str_int (resp_status_code response) @ '' from server: '' @ resp_text response
                in (PNone, st (St_error error_message) (log_call (Log_error error_message) w1)))
             else
               (case resp_json response of
                  Some v \<Rightarrow> (v, w1)
                | None \<Rightarrow> (PStr (resp_text response), w1)))"

text \<open>
  The whole function. \<^term>\<open>data\<close> is the address of the caller's dictionary; the result is
  the returned value, or the exception that leaves the function, and the world after it.
\<close>

definition call_api_tool ::
  "config \<Rightarrow> (request \<Rightarrow> http_outcome) \<Rightarrow> string \<Rightarrow> addr \<Rightarrow> world \<Rightarrow> (error + pyval) \<times> world" where
  "call_api_tool cfg server tool_name data w0 =
     (let url = api_server_url cfg @ ''/tools/'' @ tool_name;
          (request_data, w1) = dict_copy data w0;
          w2 = setitem request_data ''openai_api_key'' (PStr (openai_api_key cfg)) w1;
          w3 = setitem request_data ''google_api_key'' (PStr (google_api_key cfg)) w2;
          w4 = setitem request_data ''search_engine_id'' (PStr (search_engine_id cfg)) w3;
          (log_data, w5) = dict_copy request_data w4
      in case redact_openai None log_data w5 of
           (Inl e, w6) \<Rightarrow> (Inl e, w6)
         | (Inr key, w6) \<Rightarrow>
             (case redact_google key log_data w6 of
                (Inl e, w7) \<Rightarrow> (Inl e, w7)
              | (Inr key', w7) \<Rightarrow>
                  (let w8 = log_call (Log_info tool_name (heap w7 ! log_data)) w7;
                       (r, w9) = try_block server url request_data w8
                   in (Inr r, w9))))"

text \<open>
  The items of \<^verbatim>\<open>request_data\<close> after lines 31 to 36, from the items of \<^verbatim>\<open>data\<close>.
\<close>

definition request_data_of :: "config \<Rightarrow> dict \<Rightarrow> dict" where
  "request_data_of cfg d =
     dict_set (dict_set (dict_set d ''openai_api_key'' (PStr (openai_api_key cfg)))
       ''google_api_key'' (PStr (google_api_key cfg)))
       ''search_engine_id'' (PStr (search_engine_id cfg))"

section \<open>The grading tab (lines 129 to 188)\<close>

text \<open>
  The tabs call the tool function under the name \<^verbatim>\<open>call_mcp_tool\<close>. A global name is
  looked up when the call is evaluated, before the arguments are, and the call raises
  \<^verbatim>\<open>NameError\<close> when the module has not bound the name. The binding is a parameter of the
  tab: \<^term>\<open>None\<close> for an unbound name.
\<close>

type_synonym tool_fn = "string \<Rightarrow> addr \<Rightarrow> world \<Rightarrow> (error + pyval) \<times> world"

text \<open>
  \<^verbatim>\<open>client.py\<close> imports streamlit, requests, json, os, tempfile, time and logging, and
  defines one function, \<^verbatim>\<open>call_api_tool\<close>. Nothing in it binds \<^verbatim>\<open>call_mcp_tool\<close>.
\<close>

definition call_mcp_tool :: "tool_fn option" where
  "call_mcp_tool = None"

text \<open>\<^verbatim>\<open>st.session_state[k] = v\<close>\<close>

definition session_set :: "string \<Rightarrow> pyval \<Rightarrow> world \<Rightarrow> world" where
  "session_set k v w = w\<lparr>session_state := dict_set (session_state w) k v\<rparr>"

text \<open>\<^verbatim>\<open>v is not None\<close>\<close>

fun is_not_None :: "pyval \<Rightarrow> bool" where
  "is_not_None PNone = False"
| "is_not_None v = True"

text \<open>
  Lines 156 to 160. The payload reads the session key \<^verbatim>\<open>document_Text\<close>;
  \<^verbatim>\<open>st.session_state[k]\<close> raises \<^verbatim>\<open>KeyError\<close> for a key that is not there.
\<close>

definition plagiarism_check :: "tool_fn option \<Rightarrow> world \<Rightarrow> (error + unit) \<times> world" where
  "plagiarism_check mcp_tool w0 =
     (let w1 = st (St_info ''Checking for plagiarism'') w0
      in case mcp_tool of
           None \<Rightarrow> (Inl NameError, w1)
         | Some f \<Rightarrow>
             (case map_of (session_state w1) ''document_Text'' of
                None \<Rightarrow> (Inl KeyError, w1)
              | Some document_Text \<Rightarrow>
                  (let (payload, w2) = new_dict [(''text'', document_Text)] w1
                   in case f ''check_plagiarism'' payload w2 of
                        (Inl e, w3) \<Rightarrow> (Inl e, w3)
                      | (Inr plagiarism_results, w3) \<Rightarrow>
                          (let w4 = session_set ''plagiarism_results'' plagiarism_results w3
                           in (Inr (),
                               if is_not_None plagiarism_results then w4
                               else st (St_warning ''Plagiarism check failed or returned no results.'') w4)))))"

text \<open>
  The call of lines 164 to 167 and again of lines 174 to 177:
  \<^verbatim>\<open>call_mcp_tool(tool, {"text": st.session_state['document_text'], "rubric": rubric})\<close>.
\<close>

definition text_rubric_call :: "tool_fn option \<Rightarrow> string \<Rightarrow> string \<Rightarrow> world \<Rightarrow> (error + pyval) \<times> world" where
  "text_rubric_call mcp_tool tool rubric w =
     (case mcp_tool of
        None \<Rightarrow> (Inl NameError, w)
      | Some f \<Rightarrow>
          (case map_of (session_state w) ''document_text'' of
             None \<Rightarrow> (Inl KeyError, w)
           | Some document_text \<Rightarrow>
               (let (payload, w1) = new_dict [(''text'', document_text), (''rubric'', PStr rubric)] w
                in f tool payload w1)))"

text \<open>
  Lines 149 to 188, one run of the script through the tab: \<^term>\<open>rubric\<close> is the text of the
  text area, \<^term>\<open>check_plagirism_option\<close> the checkbox and \<^term>\<open>button\<close> whether
  "Grade Assignment" was pressed. Headers and input widgets show no message and are left out.
\<close>

definition tab2 :: "tool_fn option \<Rightarrow> string \<Rightarrow> bool \<Rightarrow> bool \<Rightarrow> world \<Rightarrow> (error + unit) \<times> world" where
  "tab2 mcp_tool rubric check_plagirism_option button w0 =
     (if dict_has (session_state w0) ''document_text'' \<and> button then
        (let w1 = session_set ''rubric'' (PStr rubric) w0
         in case (if check_plagirism_option then plagiarism_check mcp_tool w1 else (Inr (), w1)) of
              (Inl e, w2) \<Rightarrow> (Inl e, w2)
            | (Inr u, w2) \<Rightarrow>
                (case text_rubric_call mcp_tool ''grade_text'' rubric (st (St_info ''Generating grade...'') w2) of
                   (Inl e, w3) \<Rightarrow> (Inl e, w3)
                 | (Inr grade_results, w3) \<Rightarrow>
                     (let w4 = session_set ''grade_results'' grade_results w3;
                          w5 = (if is_not_None grade_results then w4
                                else st (St_warning ''Grade generation failed or returned no results.'') w4);
                          w6 = st (St_info ''Generating feedback...'') w5
                      in case text_rubric_call mcp_tool ''generate_feedback'' rubric w6 of
                           (Inl e, w7) \<Rightarrow> (Inl e, w7)
                         | (Inr feedback, w7) \<Rightarrow>
                             (let w8 = session_set ''feedback'' feedback w7;
                                  w9 = (if is_not_None feedback then w8
                                        else st (St_warning ''Feedback generation failed or returned no results.'') w8)
                              in (Inr (),
                                  if is_not_None grade_results \<or> is_not_None feedback
                                  then st St_balloons (st (St_success ''Grading completed!'') w9)
                                  else st (St_error ''Grading process encountered errors. Please check your server connection and API settings'') w9)))))
      else (Inr (), w0))"

section \<open>The similarity matches of the results tab (lines 225 to 231)\<close>

text \<open>
  The body of the loop, for one item of \<^verbatim>\<open>results.items()\<close>. An integer compares with 70 and
  40; \<^verbatim>\<open>bool\<close> is a subclass of \<^verbatim>\<open>int\<close> with values 0 and 1, so it falls through both
  comparisons; comparing \<^verbatim>\<open>None\<close>, a string, a list or a dictionary with an integer raises
  \<^verbatim>\<open>TypeError\<close>.
\<close>

fun show_match :: "string \<Rightarrow> pyval \<Rightarrow> world \<Rightarrow> (error + unit) \<times> world" where
  "show_match url (PInt similarity) w =
     (Inr (),
      if similarity > 70 then
        st (St_warning (''High similarity ('' @ str_int similarity @ ''%): ['' @ url @ '']('' @ url @ '')'')) w
      else if similarity > 40 then
        st (St_info (''Moderate similarity ('' @ str_int similarity @ ''%): ['' @ url @ '']('' @ url @ '')'')) w
      else
        st (St_success (''Low similarity ('' @ str_int similarity @ ''%): ['' @ url @ '']('' @ url @ '')'')) w)"
| "show_match url (PBool b) w =
     (Inr (),
      st (St_success (''Low similarity ('' @ (if b then ''True'' else ''False'') @ ''%): ['' @ url @ '']('' @ url @ '')'')) w)"
| "show_match url similarity w = (Inl TypeError, w)"

text \<open>The loop \<^verbatim>\<open>for url, similarity in results.items()\<close>; an exception ends it.\<close>

fun show_matches :: "dict \<Rightarrow> world \<Rightarrow> (error + unit) \<times> world" where
  "show_matches [] w = (Inr (), w)"
| "show_matches ((url, similarity) # items) w =
     (case show_match url similarity w of
        (Inl e, w') \<Rightarrow> (Inl e, w')
      | (Inr u, w') \<Rightarrow> show_matches items w')"

section \<open>Concrete runs\<close>

text \<open>
  Two configurations (one with credentials of 19 and 14 characters, one with a credential
  of 3 characters and an empty one), worlds and servers for evaluating the functions: a world
  whose heap holds
  one payload at address 0 (with a credential key of its own), a world after a document was
  processed, and servers that answer 200 with the text hello, answer 404, or cannot be
  reached.
\<close>

definition cfg0 :: config where
  "cfg0 = \<lparr>api_server_url = ''http://localhost:8088'', openai_api_key = ''sk-0123456789abcdef'',
            google_api_key = ''AIza0123456789'', search_engine_id = ''cx42''\<rparr>"

definition cfg_short :: config where
  "cfg_short = \<lparr>api_server_url = ''http://localhost:8088'', openai_api_key = ''abc'',
                 google_api_key = [], search_engine_id = []\<rparr>"

definition world0 :: world where
  "world0 = \<lparr>heap = [[(''file_path'', PStr ''/tmp/essay.pdf''), (''openai_api_key'', PStr ''mine'')]],
              logged = [], shown = [], posted = [], session_state = []\<rparr>"

definition world_doc :: world where
  "world_doc = \<lparr>heap = [], logged = [], shown = [], posted = [],
                 session_state = [(''document_text'', PStr ''Lorem ipsum'')]\<rparr>"

definition server_hello :: "request \<Rightarrow> http_outcome" where
  "server_hello req = Responded \<lparr>resp_status_code = 200, resp_text = ''hello'', resp_json = None\<rparr>"

definition server_404 :: "request \<Rightarrow> http_outcome" where
  "server_404 req = Responded \<lparr>resp_status_code = 404, resp_text = ''Not Found'', resp_json = None\<rparr>"

definition server_down :: "request \<Rightarrow> http_outcome" where
  "server_down req = Raised ''Connection refused''"

text \<open>
  A stand-in tool function for running the grading tab with the name bound: it returns
  \<^term>\<open>g\<close> for \<^verbatim>\<open>grade_text\<close> and \<^term>\<open>f\<close> for every other tool, and changes nothing.
\<close>

definition tool_stub :: "pyval \<Rightarrow> pyval \<Rightarrow> tool_fn" where
  "tool_stub g f tool payload w = (Inr (if tool = ''grade_text'' then g else f), w)"

section \<open>Dictionaries\<close>

lemma map_of_dict_set: "map_of (dict_set d k v) = (map_of d)(k \<mapsto> v)"
  by (induction d) (auto simp: fun_eq_iff)

lemma dict_has_dict_set: "dict_has (dict_set d k v) k' = (k' = k \<or> dict_has d k')"
  by (simp add: dict_has_def map_of_dict_set split: option.splits)

lemma map_of_request_data_of:
  "map_of (request_data_of cfg d) =
     (map_of d)(''openai_api_key'' \<mapsto> PStr (openai_api_key cfg),
                ''google_api_key'' \<mapsto> PStr (google_api_key cfg),
                ''search_engine_id'' \<mapsto> PStr (search_engine_id cfg))"
  by (simp add: request_data_of_def map_of_dict_set)

section \<open>Every call of \<^verbatim>\<open>call_api_tool\<close> ends at line 41\<close>

text \<open>
  Line 34 has put \<^verbatim>\<open>openai_api_key\<close> into the dictionary, so the test of line 40 holds, and
  line 41 reads the local \<^verbatim>\<open>key\<close> while it is unbound. This is before the \<^verbatim>\<open>try\<close> of
  line 49, so the exception leaves the function, for every configuration, server, tool name,
  payload and world.
\<close>

lemma call_api_tool_raises:
  "fst (call_api_tool cfg server tool_name data w) = Inl UnboundLocalError"
  by (simp add: call_api_tool_def redact_openai_def dict_copy_def setitem_def Let_def
      dict_has_dict_set nth_append)

text \<open>
  What has happened by then: the two copies exist, both with the credentials set, and
  nothing was logged, shown or posted.
\<close>

lemma call_api_tool_world:
  "snd (call_api_tool cfg server tool_name data w) =
     w\<lparr>heap := heap w @ [request_data_of cfg (heap w ! data), request_data_of cfg (heap w ! data)]\<rparr>"
  by (simp add: call_api_tool_def redact_openai_def dict_copy_def setitem_def Let_def
      dict_has_dict_set nth_append request_data_of_def)

text \<open>
  C1 (code and claim differ). The claim: for every tool name and payload, the body the
  invoker transmits is the payload with the three credential fields set to the configured
  values. For the payload \<^verbatim>\<open>{"file_path": "/tmp/essay.pdf", "openai_api_key": "mine"}\<close> the
  function builds that dictionary (the object at address 1, with the payload's own key
  overwritten) and then stops at line 41: no body is transmitted.
\<close>

theorem call_api_tool_builds_body_and_posts_nothing:
  "heap (snd (call_api_tool cfg0 server_hello ''parse_file'' 0 world0)) ! 1 =
     [(''file_path'', PStr ''/tmp/essay.pdf''), (''openai_api_key'', PStr ''sk-0123456789abcdef''),
      (''google_api_key'', PStr ''AIza0123456789''), (''search_engine_id'', PStr ''cx42'')]
   \<and> posted (snd (call_api_tool cfg0 server_hello ''parse_file'' 0 world0)) = []"
  by (simp add: call_api_tool_world world0_def cfg0_def request_data_of_def)

text \<open>
  C2 (code and claim differ). The claim: the invoker never raises to its caller; every
  failure ends in the returned value None with a logged and displayed message. With a server
  that cannot be reached the call raises \<^verbatim>\<open>UnboundLocalError\<close>, and nothing is logged or
  displayed.
\<close>

theorem call_api_tool_raises_to_caller:
  "fst (call_api_tool cfg0 server_down ''parse_file'' 0 world0) = Inl UnboundLocalError
   \<and> logged (snd (call_api_tool cfg0 server_down ''parse_file'' 0 world0)) = []
   \<and> shown (snd (call_api_tool cfg0 server_down ''parse_file'' 0 world0)) = []"
  by (simp add: call_api_tool_raises call_api_tool_world world0_def)

text \<open>
  C3 (code and claim differ). The claim: a credential of length at least 10 is logged as its
  first 5 characters, three dots and its last 5 characters, never in full, and for a shorter
  or empty credential the logging step is defined and does not crash. With a credential of
  19 characters, and with one of 3 characters beside an empty one, the logging step raises
  \<^verbatim>\<open>UnboundLocalError\<close> at line 41 and line 47 logs nothing.
\<close>

theorem call_api_tool_logging_step_raises:
  "fst (call_api_tool cfg0 server_hello ''grade_text'' 0 world0) = Inl UnboundLocalError
   \<and> logged (snd (call_api_tool cfg0 server_hello ''grade_text'' 0 world0)) = []
   \<and> fst (call_api_tool cfg_short server_hello ''grade_text'' 0 world0) = Inl UnboundLocalError
   \<and> logged (snd (call_api_tool cfg_short server_hello ''grade_text'' 0 world0)) = []"
  by (simp add: call_api_tool_raises call_api_tool_world world0_def)

text \<open>
  C4 (code and claim differ). The claim: for every tool name and payload the invoker posts
  the body as JSON to the server's URL followed by \<^verbatim>\<open>/tools/\<close> and the tool name, with a
  60-second timeout and a content-type header. The call for \<^verbatim>\<open>grade_text\<close> posts nothing.
\<close>

theorem call_api_tool_sends_no_request:
  "posted (snd (call_api_tool cfg0 server_hello ''grade_text'' 0 world0)) = []"
  by (simp add: call_api_tool_world world0_def)

text \<open>
  C5 (code and claim differ). The claim: when the server answers 200 with a body that is not
  JSON, such as hello, the invoker returns that text. Against such a server the call returns
  nothing: it raises \<^verbatim>\<open>UnboundLocalError\<close>.
\<close>

theorem call_api_tool_hello_not_returned:
  "fst (call_api_tool cfg0 server_hello ''generate_feedback'' 0 world0) = Inl UnboundLocalError"
  by (simp add: call_api_tool_raises)

text \<open>
  C6 (code and claim differ). The claim: when the server answers with a status other than
  200, such as 404, the invoker returns None and logs an error that contains the status and
  the body. Against such a server the call raises \<^verbatim>\<open>UnboundLocalError\<close> and the log stays
  empty.
\<close>

theorem call_api_tool_404_not_logged:
  "fst (call_api_tool cfg0 server_404 ''check_plagiarism'' 0 world0) = Inl UnboundLocalError
   \<and> logged (snd (call_api_tool cfg0 server_404 ''check_plagiarism'' 0 world0)) = []"
  by (simp add: call_api_tool_raises call_api_tool_world world0_def)

text \<open>
  C10. The invoker never changes the caller's payload: after the call, the dictionary at the
  caller's address has the items it had before, as has every dictionary that existed before
  the call. The credentials go into a new object, the copy made by line 31.
\<close>

theorem call_api_tool_keeps_payload:
  assumes "data < length (heap w)"
  shows "heap (snd (call_api_tool cfg server tool_name data w)) ! data = heap w ! data
    \<and> take (length (heap w)) (heap (snd (call_api_tool cfg server tool_name data w))) = heap w
    \<and> map_of (heap (snd (call_api_tool cfg server tool_name data w)) ! length (heap w)) =
        (map_of (heap w ! data))(''openai_api_key'' \<mapsto> PStr (openai_api_key cfg),
                ''google_api_key'' \<mapsto> PStr (google_api_key cfg),
                ''search_engine_id'' \<mapsto> PStr (search_engine_id cfg))"
  using assms by (simp add: call_api_tool_world nth_append map_of_request_data_of)

text \<open>
  A payload that has a key \<^verbatim>\<open>openai_api_key\<close> of its own still has its own value after
  the call.
\<close>

theorem call_api_tool_keeps_payload_witness:
  "0 < length (heap world0)
   \<and> heap (snd (call_api_tool cfg0 server_hello ''parse_file'' 0 world0)) ! 0 =
       [(''file_path'', PStr ''/tmp/essay.pdf''), (''openai_api_key'', PStr ''mine'')]"
  using call_api_tool_keeps_payload [of 0 world0 cfg0 server_hello "''parse_file''"]
  by (simp add: world0_def)

section \<open>The \<^verbatim>\<open>try\<close> statement on its own\<close>

text \<open>
  What lines 49 to 72 do once they are reached, for any server: one post, with the URL, the
  body, the header of line 53 and the timeout.
\<close>

lemma try_block_posts:
  "posted (snd (try_block server url a w)) = posted w @ [post_request url (heap w ! a)]"
  by (simp add: try_block_def Let_def st_def log_call_def
      split: http_outcome.splits option.splits)

lemma try_block_json:
  assumes "server (post_request url (heap w ! a)) = Responded r"
    and "resp_status_code r = 200" and "resp_json r = Some v"
  shows "fst (try_block server url a w) = v"
  using assms by (simp add: try_block_def Let_def)

lemma try_block_text:
  assumes "server (post_request url (heap w ! a)) = Responded r"
    and "resp_status_code r = 200" and "resp_json r = None"
  shows "fst (try_block server url a w) = PStr (resp_text r)"
  using assms by (simp add: try_block_def Let_def)

lemma try_block_status:
  assumes "server (post_request url (heap w ! a)) = Responded r"
    and "resp_status_code r \<noteq> 200"
  shows "fst (try_block server url a w) = PNone"
    and "logged (snd (try_block server url a w)) = logged w @
           [Log_error (''Error '' @ str_int (resp_status_code r) @ '' from server: '' @ resp_text r)]"
    and "shown (snd (try_block server url a w)) = shown w @
           [St_error (''Error '' @ str_int (resp_status_code r) @ '' from server: '' @ resp_text r)]"
  using assms by (simp_all add: try_block_def Let_def st_def log_call_def)

lemma try_block_raised:
  assumes "server (post_request url (heap w ! a)) = Raised e"
  shows "fst (try_block server url a w) = PNone"
    and "logged (snd (try_block server url a w)) = logged w @
           [Log_error (''Error conecting to server: '' @ e)]"
    and "shown (snd (try_block server url a w)) = shown w @
           [St_error (''Error conecting to server: '' @ e)]"
  using assms by (simp_all add: try_block_def Let_def st_def log_call_def)

section \<open>The redaction expression on its own\<close>

text \<open>
  What the expression of lines 41 and 45 gives for a string, were it evaluated: the first
  five characters, three dots and the last five characters.
\<close>

lemma redact_slices: "redact v = take 5 v @ ''...'' @ rev (take 5 (rev v))"
  by (simp add: redact_def take_rev)

lemma length_redact: "length (redact v) = min 5 (length v) + 3 + min 5 (length v)"
  by (simp add: redact_def)

lemma redact_short: "length v \<le> 5 \<Longrightarrow> redact v = v @ ''...'' @ v"
  by (simp add: redact_def)

lemma redact_nth_5: "5 \<le> length v \<Longrightarrow> redact v ! 5 = CHR ''.''"
  by (simp add: redact_def nth_append)

lemma redact_hides_long:
  assumes len: "13 < length v"
  shows "\<not> sublist v (redact v)"
proof
  assume "sublist v (redact v)"
  then have "length v \<le> length (redact v)"
    by (rule sublist_length_le)
  with len show False
    by (simp add: length_redact)
qed

text \<open>
  A value of ten or more characters, placed anywhere in the thirteen characters of its
  redaction, covers position 5, where the redaction has a dot.
\<close>

lemma redact_hides_dotfree:
  assumes len: "10 \<le> length v" and nodot: "CHR ''.'' \<notin> set v"
  shows "\<not> sublist v (redact v)"
proof
  assume "sublist v (redact v)"
  then obtain ps ss where eq: "redact v = ps @ v @ ss"
    by (auto simp: sublist_def)
  have "length (redact v) = 13"
    using len by (simp add: length_redact)
  then have "length ps + length v + length ss = 13"
    using eq by simp
  with len have ps: "length ps \<le> 3"
    by arith
  have inside: "\<not> 5 < length ps" "5 - length ps < length v"
    using ps len by arith+
  have "redact v ! 5 = v ! (5 - length ps)"
    using inside by (simp add: eq nth_append)
  moreover have "v ! (5 - length ps) \<in> set v"
    using inside by simp
  ultimately show False
    using nodot len by (simp add: redact_nth_5)
qed

text \<open>A value of ten dots is part of its own redaction, which is thirteen dots.\<close>

lemma redact_ten_dots: "sublist ''..........'' (redact ''..........'')"
  by (simp add: redact_def sublist_Cons_right)

text \<open>The expression on a list, and on values that cannot be sliced.\<close>

lemma redaction_examples:
  "redaction (PStr ''sk-0123456789abcdef'') = Inr ''sk-01...bcdef''"
  "redaction (PList [PInt 1, PStr ''a'', PNone, PBool True, PInt 5, PInt 6]) =
     Inr (''[1, '' @ [CHR 0x27] @ ''a'' @ [CHR 0x27] @ '', None, True, 5]...['' @
          [CHR 0x27] @ ''a'' @ [CHR 0x27] @ '', None, True, 5, 6]'')"
  "redaction (PDict []) = Inl TypeError"
  "redaction PNone = Inl TypeError"
  by (simp_all add: redact_def repr_str_def escape_char_def printable_def str_int_def digit_char_def Let_def)

section \<open>The grading tab\<close>

text \<open>
  C8 (code and claim differ). The claim: with plagiarism checking enabled, a confirmed
  grading run with \<^verbatim>\<open>document_text\<close> in the session calls the tool \<^verbatim>\<open>check_plagiarism\<close>
  with the stored text and stores the result under \<^verbatim>\<open>plagiarism_results\<close>. The run raises
  \<^verbatim>\<open>NameError\<close> at line 157, where the unbound name \<^verbatim>\<open>call_mcp_tool\<close> is called; the
  session never gets the key. With the name bound to \<^verbatim>\<open>call_api_tool\<close> the same line raises
  \<^verbatim>\<open>KeyError\<close>: it reads the session key \<^verbatim>\<open>document_Text\<close>, which no line writes.
\<close>

theorem tab2_plagiarism_check_raises:
  "fst (tab2 call_mcp_tool ''Content (40%)'' True True world_doc) = Inl NameError
   \<and> dict_has (session_state (snd (tab2 call_mcp_tool ''Content (40%)'' True True world_doc)))
        ''plagiarism_results'' = False
   \<and> fst (tab2 (Some (call_api_tool cfg0 server_hello)) ''Content (40%)'' True True world_doc)
        = Inl KeyError"
  by (simp add: tab2_def call_mcp_tool_def plagiarism_check_def world_doc_def dict_has_def
      session_set_def st_def)

text \<open>
  C9 (code and claim differ). The claim: after the grading run, success is declared exactly
  when the grade or the feedback is not None, and failure when both are None. With
  plagiarism checking off, the run raises \<^verbatim>\<open>NameError\<close> at line 164; the one message shown
  is the notice before the call, neither the success nor the failure.
\<close>

theorem tab2_declares_nothing:
  "fst (tab2 call_mcp_tool ''Content (40%)'' False True world_doc) = Inl NameError
   \<and> shown (snd (tab2 call_mcp_tool ''Content (40%)'' False True world_doc))
        = [St_info ''Generating grade...'']"
  by (simp add: tab2_def call_mcp_tool_def text_rubric_call_def world_doc_def dict_has_def
      session_set_def st_def)

text \<open>
  Lines 183 to 188 on their own decide as the claim says: with the name bound to a function
  that returns \<^term>\<open>g\<close> for the grade and \<^term>\<open>f\<close> for the feedback, the last message of
  the run is the success (followed by the balloons) or the failure.
\<close>

lemma tab2_bound_last_message:
  "last (shown (snd (tab2 (Some (tool_stub g f)) rubric False True world_doc))) =
     (if is_not_None g \<or> is_not_None f then St_balloons
      else St_error ''Grading process encountered errors. Please check your server connection and API settings'')"
  by (simp add: tab2_def text_rubric_call_def tool_stub_def world_doc_def dict_has_def
      session_set_def st_def new_dict_def Let_def)

section \<open>The similarity matches\<close>

text \<open>
  C7. A similarity above 70 is shown as high (a warning), one above 40 and at most 70 as
  moderate (an info), one of at most 40 as low (a success); so 71 is high, 70 and 41 are
  moderate, 40 and 0 are low.
\<close>

theorem show_match_buckets:
  "(70 < s \<longrightarrow> show_match url (PInt s) w =
      (Inr (), st (St_warning (''High similarity ('' @ str_int s @ ''%): ['' @ url @ '']('' @ url @ '')'')) w))
   \<and> (40 < s \<and> s \<le> 70 \<longrightarrow> show_match url (PInt s) w =
      (Inr (), st (St_info (''Moderate similarity ('' @ str_int s @ ''%): ['' @ url @ '']('' @ url @ '')'')) w))
   \<and> (s \<le> 40 \<longrightarrow> show_match url (PInt s) w =
      (Inr (), st (St_success (''Low similarity ('' @ str_int s @ ''%): ['' @ url @ '']('' @ url @ '')'')) w))"
  by simp

theorem show_match_buckets_witness:
  "shown (snd (show_match ''siteA.com'' (PInt 71) world0)) =
     [St_warning ''High similarity (71%): [siteA.com](siteA.com)'']
   \<and> shown (snd (show_match ''siteA.com'' (PInt 70) world0)) =
     [St_info ''Moderate similarity (70%): [siteA.com](siteA.com)'']
   \<and> shown (snd (show_match ''siteA.com'' (PInt 41) world0)) =
     [St_info ''Moderate similarity (41%): [siteA.com](siteA.com)'']
   \<and> shown (snd (show_match ''siteA.com'' (PInt 40) world0)) =
     [St_success ''Low similarity (40%): [siteA.com](siteA.com)'']
   \<and> shown (snd (show_match ''siteA.com'' (PInt 0) world0)) =
     [St_success ''Low similarity (0%): [siteA.com](siteA.com)'']"
  using show_match_buckets [of 71 "''siteA.com''" world0]
    show_match_buckets [of 70 "''siteA.com''" world0]
    show_match_buckets [of 41 "''siteA.com''" world0]
    show_match_buckets [of 40 "''siteA.com''" world0]
    show_match_buckets [of 0 "''siteA.com''" world0]
  by (simp add: st_def world0_def str_int_def digit_char_def)

text \<open>
  The loop shows one message for each item when the similarities are integers, in the order
  of the items and each in its bucket, and does not raise.
\<close>

lemma show_matches_ints:
  "show_matches (map (\<lambda>(url, s). (url, PInt s)) items) w =
     (Inr (),
      w\<lparr>shown := shown w @
        map (\<lambda>(url, s).
          if s > 70 then
            St_warning (''High similarity ('' @ str_int s @ ''%): ['' @ url @ '']('' @ url @ '')'')
          else if s > 40 then
            St_info (''Moderate similarity ('' @ str_int s @ ''%): ['' @ url @ '']('' @ url @ '')'')
          else
            St_success (''Low similarity ('' @ str_int s @ ''%): ['' @ url @ '']('' @ url @ '')''))
          items\<rparr>)"
  by (induction items arbitrary: w) (auto simp: st_def)

end
